theory Spec2Isabelle
  imports Main "HOL-Library.Sublist"
begin

section \<open>The billing invoicer's HTTP bootstrap (server/server.js)\<close>

text \<open>
  \<^verbatim>\<open>server.js\<close> builds one Express application: it installs helmet, morgan, cors, a
  diagnostic logger (outside production), the two body parsers, three routes of its own,
  four mounted routers, a catch-all 404 handler and the error handler, and then listens.

  The file's own code is embedded as it is written: \<open>PORT\<close>, \<open>corsOptions\<close>, the helmet
  options, the handlers and the order of the \<^verbatim>\<open>app.use\<close> / \<^verbatim>\<open>app.get\<close> calls. What
  the file calls but does not contain comes in two kinds.

  \<^item> The modules of the repository that are required but not part of the file
    (\<^verbatim>\<open>./routes/*\<close>, \<^verbatim>\<open>./middleware/errorHandler\<close>) are parameters: arbitrary handlers.
  \<^item> The third-party packages (express 4, cors, body-parser, helmet, morgan) and the
    JavaScript runtime (\<^verbatim>\<open>Date\<close>, Node's \<^verbatim>\<open>listen\<close>) are modelled by what they
    document, as far as the file uses them; each definition says what it leaves out.

  A request is modelled by its method, its request target, its \<^verbatim>\<open>Origin\<close> header,
  the headers that make it conditional, the media type its \<^verbatim>\<open>Content-Type\<close> announces
  and its body. Compressed bodies and charsets other than UTF-8 are outside the model,
  and so are the \<^verbatim>\<open>trust proxy\<close> setting and the three lines the file prints once it
  listens.
\<close>

subsection \<open>JavaScript strings\<close>

definition toLowerCase :: "string \<Rightarrow> string" where
  "toLowerCase s =
     map (\<lambda>c. case map_of (zip ''ABCDEFGHIJKLMNOPQRSTUVWXYZ'' ''abcdefghijklmnopqrstuvwxyz'') c of
               None \<Rightarrow> c | Some l \<Rightarrow> l) s"

definition toUpperCase :: "string \<Rightarrow> string" where
  "toUpperCase s =
     map (\<lambda>c. case map_of (zip ''abcdefghijklmnopqrstuvwxyz'' ''ABCDEFGHIJKLMNOPQRSTUVWXYZ'') c of
               None \<Rightarrow> c | Some u \<Rightarrow> u) s"

text \<open>
  A string is a list of code units below 256. \<open>white_space\<close> is the white space of
  \<^verbatim>\<open>String.prototype.trim\<close> and of a regular expression's \<^verbatim>\<open>\s\<close> among them.
\<close>

definition white_space :: "char \<Rightarrow> bool" where
  "white_space c =
     (c \<in> set [CHR 0x09, CHR 0x0A, CHR 0x0B, CHR 0x0C, CHR 0x0D, CHR 0x20, CHR 0xA0])"

definition trim_by :: "(char \<Rightarrow> bool) \<Rightarrow> string \<Rightarrow> string" where
  "trim_by ws s = rev (dropWhile ws (rev (dropWhile ws s)))"

definition is_letter :: "char \<Rightarrow> bool" where
  "is_letter c = (c \<in> set ''abcdefghijklmnopqrstuvwxyzABCDEFGHIJKLMNOPQRSTUVWXYZ'')"

definition is_digit :: "char \<Rightarrow> bool" where
  "is_digit c = (c \<in> set ''0123456789'')"

text \<open>\<^verbatim>\<open>s.split(sep)\<close> for a separator of one character.\<close>

fun split_on :: "char \<Rightarrow> string \<Rightarrow> string list" where
  "split_on sep [] = [[]]"
| "split_on sep (c # cs) =
     (if c = sep then [] # split_on sep cs
      else (case split_on sep cs of [] \<Rightarrow> [[c]] | x # xs \<Rightarrow> (c # x) # xs))"

text \<open>Decimal digits: \<^verbatim>\<open>String(n).padStart(k, '0')\<close> for \<open>n < 10 ^ k\<close>, and reading them back.\<close>

definition digit_char :: "nat \<Rightarrow> char" where
  "digit_char n = ''0123456789'' ! n"

fun pad_digits :: "nat \<Rightarrow> nat \<Rightarrow> string" where
  "pad_digits 0 n = []"
| "pad_digits (Suc k) n = pad_digits k (n div 10) @ [digit_char (n mod 10)]"

definition digit_val :: "char \<Rightarrow> nat option" where
  "digit_val c = map_of (zip ''0123456789'' [0 ..< 10]) c"

fun parse_digits_acc :: "nat \<Rightarrow> string \<Rightarrow> nat option" where
  "parse_digits_acc a [] = Some a"
| "parse_digits_acc a (c # cs) =
     (case digit_val c of None \<Rightarrow> None | Some v \<Rightarrow> parse_digits_acc (10 * a + v) cs)"

definition parse_digits :: "string \<Rightarrow> nat option" where
  "parse_digits s = (if s = [] then None else parse_digits_acc 0 s)"

subsection \<open>JavaScript dates\<close>

text \<open>
  A time value is a number of milliseconds since 1970-01-01T00:00:00Z. The functions
  below are the abstract operations of ECMA-262 (Day, DaysInYear, DayFromYear,
  YearFromTime, InLeapYear, MonthFromTime, DateFromTime, HourFromTime, ..., MakeDay,
  MakeTime, MakeDate, TimeClip), with \<open>div\<close> and \<open>mod\<close> for the standard's floor and
  modulo.
\<close>

definition msPerDay :: int where
  "msPerDay = 86400000"

definition Day :: "int \<Rightarrow> int" where
  "Day t = t div msPerDay"


definition DaysInYear :: "int \<Rightarrow> int" where
  "DaysInYear y =
     (if y mod 4 \<noteq> 0 then 365 else if y mod 100 \<noteq> 0 then 366
      else if y mod 400 \<noteq> 0 then 365 else 366)"

definition DayFromYear :: "int \<Rightarrow> int" where
  "DayFromYear y =
     365 * (y - 1970) + (y - 1969) div 4 - (y - 1901) div 100 + (y - 1601) div 400"

text \<open>
  The standard defines YearFromTime(t) as the largest year \<open>y\<close> with
  \<open>DayFromYear y \<le> Day t\<close>. The definition computes it: the estimate \<open>y0\<close> from the mean
  length of a year (146097 days in 400 years) is off by at most one; lemma
  \<open>YearFromTime_bracket\<close> shows that the result is the standard's year.
\<close>

definition YearFromTime :: "int \<Rightarrow> int" where
  "YearFromTime t =
     (let d = Day t; y0 = 1970 + (400 * d) div 146097
      in if d < DayFromYear y0 then y0 - 1
         else if DayFromYear (y0 + 1) \<le> d then y0 + 1 else y0)"

definition InLeapYear :: "int \<Rightarrow> int" where
  "InLeapYear t = (if DaysInYear (YearFromTime t) = 365 then 0 else 1)"

definition DayWithinYear :: "int \<Rightarrow> int" where
  "DayWithinYear t = Day t - DayFromYear (YearFromTime t)"

definition month_of_day :: "int \<Rightarrow> int \<Rightarrow> int" where
  "month_of_day d l =
     (if d < 31 then 0 else if d < 59 + l then 1 else if d < 90 + l then 2
      else if d < 120 + l then 3 else if d < 151 + l then 4 else if d < 181 + l then 5
      else if d < 212 + l then 6 else if d < 243 + l then 7 else if d < 273 + l then 8
      else if d < 304 + l then 9 else if d < 334 + l then 10 else 11)"

definition MonthFromTime :: "int \<Rightarrow> int" where
  "MonthFromTime t = month_of_day (DayWithinYear t) (InLeapYear t)"

definition date_of_day :: "int \<Rightarrow> int \<Rightarrow> int \<Rightarrow> int" where
  "date_of_day d l m =
     (if m = 0 then d + 1 else if m = 1 then d - 30 else if m = 2 then d - 58 - l
      else if m = 3 then d - 89 - l else if m = 4 then d - 119 - l
      else if m = 5 then d - 150 - l else if m = 6 then d - 180 - l
      else if m = 7 then d - 211 - l else if m = 8 then d - 242 - l
      else if m = 9 then d - 272 - l else if m = 10 then d - 303 - l else d - 333 - l)"

definition DateFromTime :: "int \<Rightarrow> int" where
  "DateFromTime t = date_of_day (DayWithinYear t) (InLeapYear t) (MonthFromTime t)"

definition HourFromTime :: "int \<Rightarrow> int" where
  "HourFromTime t = (t div 3600000) mod 24"

definition MinFromTime :: "int \<Rightarrow> int" where
  "MinFromTime t = (t div 60000) mod 60"

definition SecFromTime :: "int \<Rightarrow> int" where
  "SecFromTime t = (t div 1000) mod 60"

definition msFromTime :: "int \<Rightarrow> int" where
  "msFromTime t = t mod 1000"

text \<open>
  TimeClip: a time value further than 8.64e15 ms from the epoch is no date (NaN);
  \<^verbatim>\<open>new Date()\<close> is TimeClip of the system clock.
\<close>

definition TimeClip :: "int \<Rightarrow> int option" where
  "TimeClip t = (if \<bar>t\<bar> > 8640000000000000 then None else Some t)"

text \<open>
  \<^verbatim>\<open>Date.prototype.toISOString\<close> of a valid date: \<^verbatim>\<open>YYYY-MM-DDTHH:mm:ss.sssZ\<close>, the
  year written with four digits from 0 to 9999 and as a sign and six digits otherwise.
\<close>

definition year_string :: "int \<Rightarrow> string" where
  "year_string y =
     (if 0 \<le> y \<and> y \<le> 9999 then pad_digits 4 (nat y)
      else (if y < 0 then ''-'' else ''+'') @ pad_digits 6 (nat \<bar>y\<bar>))"

definition toISOString :: "int \<Rightarrow> string" where
  "toISOString t =
     year_string (YearFromTime t)
     @ ''-'' @ pad_digits 2 (nat (MonthFromTime t + 1))
     @ ''-'' @ pad_digits 2 (nat (DateFromTime t))
     @ ''T'' @ pad_digits 2 (nat (HourFromTime t))
     @ '':'' @ pad_digits 2 (nat (MinFromTime t))
     @ '':'' @ pad_digits 2 (nat (SecFromTime t))
     @ ''.'' @ pad_digits 3 (nat (msFromTime t)) @ ''Z''"










subsection \<open>JSON\<close>

text \<open>
  The objects this file sends map keys to strings, so a JSON object is a list of
  key/value pairs in the order of the object literal. \<open>JSON_stringify\<close> is
  \<^verbatim>\<open>JSON.stringify\<close> on such objects: no white space, strings quoted with the escapes
  of the standard's QuoteJSONString.
\<close>

type_synonym json_object = "(string \<times> string) list"

definition hex_digit :: "nat \<Rightarrow> char" where
  "hex_digit n = ''0123456789abcdef'' ! n"

definition escape_char :: "char \<Rightarrow> string" where
  "escape_char c =
     (if c = CHR 0x22 then [CHR 0x5C, CHR 0x22]
      else if c = CHR 0x5C then [CHR 0x5C, CHR 0x5C]
      else if c = CHR 0x08 then [CHR 0x5C, CHR ''b'']
      else if c = CHR 0x0C then [CHR 0x5C, CHR ''f'']
      else if c = CHR 0x0A then [CHR 0x5C, CHR ''n'']
      else if c = CHR 0x0D then [CHR 0x5C, CHR ''r'']
      else if c = CHR 0x09 then [CHR 0x5C, CHR ''t'']
      else if (of_char c :: nat) < 32
        then [CHR 0x5C, CHR ''u'', CHR ''0'', CHR ''0'',
              hex_digit (of_char c div 16), hex_digit (of_char c mod 16)]
      else [c])"

definition quote :: "string \<Rightarrow> string" where
  "quote s = [CHR 0x22] @ concat (map escape_char s) @ [CHR 0x22]"

fun join :: "string \<Rightarrow> string list \<Rightarrow> string" where
  "join sep [] = []"
| "join sep [x] = x"
| "join sep (x # y # ys) = x @ sep @ join sep (y # ys)"

definition JSON_stringify :: "json_object \<Rightarrow> string" where
  "JSON_stringify obj =
     ''{'' @ join '','' (map (\<lambda>(k, v). quote k @ '':'' @ quote v) obj) @ ''}''"

subsection \<open>Requests, responses and handlers\<close>

text \<open>
  \<open>process_env\<close> is \<^verbatim>\<open>process.env\<close> after \<^verbatim>\<open>dotenv.config()\<close>: a variable is unset
  (\<open>None\<close>) or holds a string.
\<close>

record process_env =
  env_PORT :: "string option"
  env_NODE_ENV :: "string option"

text \<open>
  \<open>req_originalUrl\<close> is the request target as the request line has it. A header that
  the request does not carry is \<open>None\<close>. \<open>media\<close> is what the \<^verbatim>\<open>type-is\<close> package
  reports for the request's \<^verbatim>\<open>Content-Type\<close>: \<^verbatim>\<open>application/json\<close>,
  \<^verbatim>\<open>application/x-www-form-urlencoded\<close>, or neither (any other type, or no header).
  \<open>req_body\<close> is \<open>None\<close> for a request that announces no body (neither
  \<^verbatim>\<open>Content-Length\<close> nor \<^verbatim>\<open>Transfer-Encoding\<close>).
\<close>

datatype media = Json_media | Urlencoded_media | Other_media

record request =
  req_method :: string
  req_originalUrl :: string
  req_origin :: "string option"
  req_if_none_match :: "string option"
  req_if_modified_since :: "string option"
  req_cache_control :: "string option"
  req_content_type :: media
  req_body :: "string option"

datatype payload = Json_payload json_object | Text_payload string | No_payload

text \<open>
  The response under construction: Express's \<^verbatim>\<open>res\<close>. \<open>res_payload\<close> is \<open>None\<close> until
  the response is ended. Of the headers, the model keeps those set by helmet and cors,
  \<^verbatim>\<open>Content-Type\<close> and \<^verbatim>\<open>ETag\<close>; \<^verbatim>\<open>Content-Length\<close>, \<^verbatim>\<open>Vary\<close> and
  \<^verbatim>\<open>X-Powered-By\<close> are left out.
\<close>

record response =
  statusCode :: nat
  res_headers :: "string \<rightharpoonup> string"
  res_payload :: "payload option"

text \<open>What travels to \<^verbatim>\<open>next(err)\<close>.\<close>

datatype error =
    Entity_too_large
  | Entity_parse_failed
  | URI_malformed
  | Invalid_time_value
  | Module_error string

text \<open>
  A handler ends in one of three ways: it calls \<^verbatim>\<open>next()\<close>, it calls \<^verbatim>\<open>next(err)\<close>
  (or throws, which Express turns into \<^verbatim>\<open>next(err)\<close>), or it ends the response. It
  returns the lines it printed to the console, the response as it left it, and how it
  ended.
\<close>

datatype signal = Continue | Raise error | Sent

type_synonym handler = "request \<Rightarrow> response \<Rightarrow> string list \<times> response \<times> signal"

type_synonym error_handler = "error \<Rightarrow> handler"

definition bytes_of :: "payload \<Rightarrow> string" where
  "bytes_of p =
     (case p of Json_payload obj \<Rightarrow> JSON_stringify obj | Text_payload s \<Rightarrow> s | No_payload \<Rightarrow> [])"

subsection \<open>Express: the response methods\<close>

definition setHeader :: "string \<Rightarrow> string \<Rightarrow> response \<Rightarrow> response" where
  "setHeader k v res = res\<lparr>res_headers := (res_headers res)(k \<mapsto> v)\<rparr>"

definition status :: "nat \<Rightarrow> response \<Rightarrow> response" where
  "status code res = res\<lparr>statusCode := code\<rparr>"

definition default_type :: "string \<Rightarrow> response \<Rightarrow> response" where
  "default_type ty res =
     (if res_headers res ''Content-Type'' = None then setHeader ''Content-Type'' ty res else res)"

definition removeHeader :: "string \<Rightarrow> response \<Rightarrow> response" where
  "removeHeader k res = res\<lparr>res_headers := (res_headers res)(k := None)\<rparr>"

text \<open>
  \<^verbatim>\<open>req.fresh\<close> (the fresh package). A GET or HEAD request whose response has a status
  2xx or 304 is fresh when it is conditional, does not ask for \<^verbatim>\<open>no-cache\<close>, and its
  validators match: \<^verbatim>\<open>If-None-Match\<close> is \<^verbatim>\<open>*\<close> or lists the entity tag of the
  response, and \<^verbatim>\<open>If-Modified-Since\<close> is not before its \<^verbatim>\<open>Last-Modified\<close>. A header
  with an empty value counts as absent. How two HTTP dates compare is a parameter.
\<close>

definition given :: "string option \<Rightarrow> bool" where
  "given h = (case h of None \<Rightarrow> False | Some v \<Rightarrow> v \<noteq> [])"

definition no_cache :: "string \<Rightarrow> bool" where
  "no_cache v = list_ex (\<lambda>t. trim_by white_space t = ''no-cache'') (split_on (CHR '','') v)"

definition parseTokenList :: "string \<Rightarrow> string list" where
  "parseTokenList v = map (trim_by (\<lambda>c. c = CHR 0x20)) (split_on (CHR '','') v)"

definition etag_matches :: "string \<Rightarrow> string \<Rightarrow> bool" where
  "etag_matches etag v =
     list_ex (\<lambda>m. m = etag \<or> m = ''W/'' @ etag \<or> ''W/'' @ m = etag) (parseTokenList v)"

definition req_fresh :: "(string \<Rightarrow> string \<Rightarrow> bool) \<Rightarrow> request \<Rightarrow> response \<Rightarrow> bool" where
  "req_fresh date_le req res =
     ((req_method req = ''GET'' \<or> req_method req = ''HEAD'')
      \<and> (200 \<le> statusCode res \<and> statusCode res < 300 \<or> statusCode res = 304)
      \<and> (given (req_if_modified_since req) \<or> given (req_if_none_match req))
      \<and> \<not> (case req_cache_control req of None \<Rightarrow> False | Some v \<Rightarrow> no_cache v)
      \<and> (case req_if_none_match req of
            None \<Rightarrow> True
          | Some v \<Rightarrow>
              v = [] \<or> v = ''*''
              \<or> (case res_headers res ''ETag'' of
                    None \<Rightarrow> False
                  | Some t \<Rightarrow> t \<noteq> [] \<and> etag_matches t v))
      \<and> (case req_if_modified_since req of
            None \<Rightarrow> True
          | Some v \<Rightarrow>
              v = []
              \<or> (case res_headers res ''Last-Modified'' of
                    None \<Rightarrow> False
                  | Some m \<Rightarrow> m \<noteq> [] \<and> date_le m v)))"

text \<open>
  \<^verbatim>\<open>res.send(string)\<close> and \<^verbatim>\<open>res.json(obj)\<close>, which sends the object's JSON text.
  The content type is set unless one is set already, and so is the entity tag, which
  Express computes from the body (a hash: a parameter). A fresh request is answered
  304; a response with status 204 or 304 loses its content type and its body, and a
  HEAD request gets the headers without the body. (What newer versions of Express do
  for status 205, which no handler of the file sets, is left out.)
\<close>

definition send_payload ::
    "(string \<Rightarrow> string) \<Rightarrow> (string \<Rightarrow> string \<Rightarrow> bool) \<Rightarrow> string \<Rightarrow> payload \<Rightarrow> handler" where
  "send_payload etag date_le ty body req res =
     (let r1 = default_type ty res;
          r2 = (if res_headers r1 ''ETag'' = None
                then setHeader ''ETag'' (etag (bytes_of body)) r1 else r1);
          r3 = (if req_fresh date_le req r2 then status 304 r2 else r2);
          bare = (statusCode r3 = 204 \<or> statusCode r3 = 304);
          r4 = (if bare then removeHeader ''Content-Type'' r3 else r3)
      in ([], r4\<lparr>res_payload := Some (if bare \<or> req_method req = ''HEAD'' then No_payload
                                       else body)\<rparr>,
          Sent))"

definition send :: "(string \<Rightarrow> string) \<Rightarrow> (string \<Rightarrow> string \<Rightarrow> bool) \<Rightarrow> string \<Rightarrow> handler" where
  "send etag date_le text = send_payload etag date_le ''text/html; charset=utf-8'' (Text_payload text)"

definition json :: "(string \<Rightarrow> string) \<Rightarrow> (string \<Rightarrow> string \<Rightarrow> bool) \<Rightarrow> json_object \<Rightarrow> handler" where
  "json etag date_le obj =
     send_payload etag date_le ''application/json; charset=utf-8'' (Json_payload obj)"

subsection \<open>Express: the router\<close>

text \<open>
  Express matches its layers against \<^verbatim>\<open>parseurl(req).pathname\<close>. For a request target
  that starts with a slash and holds neither \<^verbatim>\<open>#\<close> nor white space, parseurl takes the
  target up to the first \<^verbatim>\<open>?\<close>. Every other target (one with a fragment, an
  absolute-form target such as \<^verbatim>\<open>http://host/path\<close>, the asterisk) goes through Node's
  legacy \<^verbatim>\<open>url.parse\<close>, modelled here as of Node 18 to 22: it trims white space, turns
  the back slashes before the query into slashes, splits off the scheme and the
  authority, percent-escapes a few characters and takes what remains up to the first
  \<^verbatim>\<open>?\<close> or \<^verbatim>\<open>#\<close>.

  The result is \<open>None\<close> where Express finds no path: \<^verbatim>\<open>url.parse\<close> leaves the pathname
  \<^verbatim>\<open>null\<close> (nothing follows the authority and the scheme is none of http, https, ftp,
  gopher, file, ws, wss) or throws (user information that does not percent-decode).
  Of the host name only its presence matters; the checks by which Node refuses some host
  names (IDNA, forbidden characters) are left out.
\<close>

definition fastparse_defers :: "char \<Rightarrow> bool" where
  "fastparse_defers c =
     (c \<in> set [CHR 0x09, CHR 0x0A, CHR 0x0C, CHR 0x0D, CHR 0x20, CHR ''#'', CHR 0xA0])"

definition url_white :: "char \<Rightarrow> bool" where
  "url_white c = ((of_char c :: nat) < 33 \<or> c = CHR 0xA0)"

fun back_slashes :: "string \<Rightarrow> string" where
  "back_slashes [] = []"
| "back_slashes (c # cs) =
     (if c = CHR ''?'' \<or> c = CHR ''#'' then c # cs
      else (if c = CHR 0x5C then CHR ''/'' else c) # back_slashes cs)"

text \<open>
  The regular expressions of \<^verbatim>\<open>url.parse\<close>. \<^verbatim>\<open>simplePathPattern\<close>: one slash or
  two, no third, then up to the first \<^verbatim>\<open>?\<close> the path, and white space nowhere.
  \<^verbatim>\<open>protocolPattern\<close>: letters, digits, \<^verbatim>\<open>.\<close>, \<^verbatim>\<open>+\<close> or \<^verbatim>\<open>-\<close>, then a colon.
  \<^verbatim>\<open>hostPattern\<close>: two slashes, user information, \<^verbatim>\<open>@\<close> and a host, none of them
  empty. \<^verbatim>\<open>portPattern\<close> (in \<open>hostname_of\<close>): a colon and digits at the end.
\<close>

definition simplePathPattern :: "string \<Rightarrow> string option" where
  "simplePathPattern s =
     (if take 1 s = ''/'' \<and> take 3 s \<noteq> ''///'' \<and> \<not> list_ex white_space s
      then Some (takeWhile (\<lambda>c. c \<noteq> CHR ''?'') s) else None)"

definition protocolPattern :: "string \<Rightarrow> string option" where
  "protocolPattern s =
     (let p = takeWhile (\<lambda>c. is_letter c \<or> is_digit c \<or> c \<in> set ''.+-'') s
      in if p \<noteq> [] \<and> take 1 (drop (length p) s) = '':'' then Some (p @ '':'') else None)"

definition hostPattern :: "string \<Rightarrow> bool" where
  "hostPattern s =
     (let a = takeWhile (\<lambda>c. c \<noteq> CHR ''@'' \<and> c \<noteq> CHR ''/'') (drop 2 s);
          r = drop (2 + length a) s
      in take 2 s = ''//'' \<and> a \<noteq> [] \<and> take 1 r = ''@''
         \<and> (case drop 1 r of [] \<Rightarrow> False | c # cs \<Rightarrow> c \<noteq> CHR ''@'' \<and> c \<noteq> CHR ''/''))"

definition slashedProtocol :: "string list" where
  "slashedProtocol = [''http:'', ''https:'', ''ftp:'', ''gopher:'', ''file:'', ''ws:'', ''wss:'']"

definition host_ending :: "char \<Rightarrow> bool" where
  "host_ending c = (c = CHR ''#'' \<or> c = CHR ''/'' \<or> c = CHR ''?'')"

definition non_host :: "char \<Rightarrow> bool" where
  "non_host c =
     (c \<in> set [CHR 0x20, CHR 0x22, CHR ''%'', CHR 0x27, CHR '';'', CHR ''<'', CHR ''>'',
                CHR 0x5C, CHR ''^'', CHR 0x60, CHR ''{'', CHR ''|'', CHR ''}''])"

definition autoEscape :: "char \<Rightarrow> string" where
  "autoEscape c =
     (case map_of [(CHR ''{'', ''%7B''), (CHR ''}'', ''%7D''), (CHR ''|'', ''%7C''),
                   (CHR 0x5C, ''%5C''), (CHR ''^'', ''%5E''), (CHR 0x60, ''%60''),
                   (CHR ''<'', ''%3C''), (CHR ''>'', ''%3E''), (CHR 0x22, ''%22''),
                   (CHR 0x20, ''%20''), (CHR 0x0D, ''%0D''), (CHR 0x0A, ''%0A''),
                   (CHR 0x09, ''%09''), (CHR 0x27, ''%27'')] c of
        None \<Rightarrow> [c]
      | Some e \<Rightarrow> e)"

text \<open>
  The host name of \<open>host\<close>: without its port, and cut at a colon that is left (what
  follows the cut is pushed back in front of the path) unless it is bracketed as an
  IPv6 address.
\<close>

definition hostname_of :: "string \<Rightarrow> string \<times> string" where
  "hostname_of host =
     (let ds = takeWhile is_digit (rev host);
          h = (if take 1 (drop (length ds) (rev host)) = '':''
               then rev (drop (length ds + 1) (rev host)) else host)
      in if take 1 h = ''['' \<and> take 1 (rev h) = '']'' then (h, [])
         else if CHR '':'' \<in> set h
         then (takeWhile (\<lambda>c. c \<noteq> CHR '':'') h, CHR ''/'' # dropWhile (\<lambda>c. c \<noteq> CHR '':'') h)
         else (h, []))"

text \<open>The pathname of what is left once scheme and authority are gone.\<close>

definition path_part :: "bool \<Rightarrow> string \<Rightarrow> string option" where
  "path_part slash rest =
     (let p = takeWhile (\<lambda>c. c \<noteq> CHR ''?'' \<and> c \<noteq> CHR ''#'') rest
      in if p \<noteq> [] then Some p else if slash then Some ''/'' else None)"

text \<open>
  The authority ends at the first of \<^verbatim>\<open>/ ? #\<close>; the user information is what precedes
  its last \<^verbatim>\<open>@\<close>, and the host ends at the first character that no host name has.
\<close>

definition after_host :: "(string \<Rightarrow> bool) \<Rightarrow> string option \<Rightarrow> string \<Rightarrow> string option" where
  "after_host decodes lowerProto s =
     (let region = takeWhile (\<lambda>c. \<not> host_ending c) s;
          auth = rev (drop 1 (dropWhile (\<lambda>c. c \<noteq> CHR ''@'') (rev region)));
          h = rev (takeWhile (\<lambda>c. c \<noteq> CHR ''@'') (rev region));
          name = hostname_of (takeWhile (\<lambda>c. \<not> non_host c) h);
          rest = snd name @ dropWhile (\<lambda>c. \<not> non_host c) h
                 @ dropWhile (\<lambda>c. \<not> host_ending c) s
      in if CHR ''@'' \<in> set region \<and> \<not> decodes auth then None
         else path_part
                ((case lowerProto of None \<Rightarrow> False | Some p \<Rightarrow> p \<in> set slashedProtocol)
                 \<and> fst name \<noteq> [] \<and> length (fst name) \<le> 255)
                (concat (map autoEscape rest)))"

definition url_parse :: "(string \<Rightarrow> bool) \<Rightarrow> string \<Rightarrow> string option" where
  "url_parse decodes url =
     (let rest = back_slashes (trim_by url_white url);
          proto = protocolPattern rest;
          lowerProto = map_option toLowerCase proto;
          rest1 = drop (case proto of None \<Rightarrow> 0 | Some p \<Rightarrow> length p) rest;
          slashes = ((proto \<noteq> None \<or> hostPattern rest1) \<and> take 2 rest1 = ''//'');
          hostless = (lowerProto = Some ''javascript:'');
          rest2 = (if slashes \<and> \<not> hostless then drop 2 rest1 else rest1)
      in if CHR ''#'' \<notin> set rest
            \<and> CHR ''@'' \<notin> set (takeWhile (\<lambda>c. c \<noteq> CHR ''?'' \<and> c \<noteq> CHR ''#'') rest)
            \<and> simplePathPattern rest \<noteq> None
         then simplePathPattern rest
         else if \<not> hostless
                 \<and> (slashes \<or> (case proto of None \<Rightarrow> False | Some p \<Rightarrow> p \<notin> set slashedProtocol))
         then after_host decodes lowerProto rest2
         else path_part False (if hostless then rest2 else concat (map autoEscape rest2)))"

text \<open>\<^verbatim>\<open>parseurl(req).pathname\<close>, as Express's \<^verbatim>\<open>getPathname\<close> reads it.\<close>

definition pathname :: "(string \<Rightarrow> bool) \<Rightarrow> string \<Rightarrow> string option" where
  "pathname decodes url =
     (if take 1 url = ''/'' \<and> \<not> list_ex fastparse_defers url
      then Some (takeWhile (\<lambda>c. c \<noteq> CHR ''?'') url)
      else url_parse decodes url)"

text \<open>
  With the
  default settings (\<^verbatim>\<open>case sensitive routing\<close> and \<^verbatim>\<open>strict routing\<close> off) a route
  path matches whatever the letters' case and with or without one trailing slash; a
  mount path matches as a prefix that ends at a slash or at the end of the path.
  \<^verbatim>\<open>app.get\<close> serves GET and, when the route has no HEAD handler, HEAD. The mount
  path \<^verbatim>\<open>'*'\<close> matches every path and stores the decoded path as a parameter;
  when the path does not decode (\<^verbatim>\<open>decodeURIComponent\<close> throws a URIError) the match
  fails with that error. Which paths decode is a parameter.
\<close>

definition route_match :: "string \<Rightarrow> string \<Rightarrow> bool" where
  "route_match p path = (toLowerCase path = p \<or> toLowerCase path = p @ ''/'')"

definition mount_match :: "string \<Rightarrow> string \<Rightarrow> bool" where
  "mount_match p path =
     (toLowerCase path = p \<or> take (length p + 1) (toLowerCase path) = p @ ''/'')"

definition handles_get :: "string \<Rightarrow> bool" where
  "handles_get m = (toLowerCase m = ''get'' \<or> toLowerCase m = ''head'')"

datatype layer_id =
    Helmet | Morgan | Cors | DiagLog | JsonParser | UrlencodedParser
  | Health | ApiHealth | Ping
  | AuthRoutes | ProductRoutes | InvoiceRoutes | ShopRoutes
  | NotFound | ErrorHandler

datatype callback = Handle handler | Handle_error error_handler

datatype matching = No_match | Match | Match_failed error

record layer =
  layer_name :: layer_id
  layer_match :: "string \<Rightarrow> request \<Rightarrow> matching"
  layer_callback :: callback

text \<open>\<^verbatim>\<open>app.use(fn)\<close>, \<^verbatim>\<open>app.use(path, fn)\<close>, \<^verbatim>\<open>app.use('*', fn)\<close> and \<^verbatim>\<open>app.get(path, fn)\<close>.\<close>

definition use :: "layer_id \<Rightarrow> callback \<Rightarrow> layer" where
  "use n cb = \<lparr>layer_name = n, layer_match = (\<lambda>path req. Match), layer_callback = cb\<rparr>"

definition use_at :: "string \<Rightarrow> layer_id \<Rightarrow> callback \<Rightarrow> layer" where
  "use_at p n cb =
     \<lparr>layer_name = n,
      layer_match =
        (\<lambda>path req. if mount_match p path then Match else No_match),
      layer_callback = cb\<rparr>"

definition use_star :: "(string \<Rightarrow> bool) \<Rightarrow> layer_id \<Rightarrow> callback \<Rightarrow> layer" where
  "use_star decodes n cb =
     \<lparr>layer_name = n,
      layer_match =
        (\<lambda>path req. if decodes path then Match else Match_failed URI_malformed),
      layer_callback = cb\<rparr>"

definition get :: "string \<Rightarrow> layer_id \<Rightarrow> callback \<Rightarrow> layer" where
  "get p n cb =
     \<lparr>layer_name = n,
      layer_match =
        (\<lambda>path req. if route_match p path \<and> handles_get (req_method req)
               then Match else No_match),
      layer_callback = cb\<rparr>"

text \<open>
  One exchange: the layers whose callbacks ran, in order; the console; the response.
\<close>

record exchange =
  ran :: "layer_id list"
  console :: "string list"
  reply :: response

definition invoke :: "layer_id \<Rightarrow> (response \<Rightarrow> string list \<times> response \<times> signal) \<Rightarrow> exchange
    \<Rightarrow> exchange \<times> signal" where
  "invoke n f x =
     (case f (reply x) of
        (lines, r, sg) \<Rightarrow> (\<lparr>ran = ran x @ [n], console = console x @ lines, reply = r\<rparr>, sg))"

text \<open>
  The router walks the stack in registration order and matches each layer against the
  path of the request. While no error is pending it calls the matching plain handlers and skips the
  error handlers; once \<^verbatim>\<open>next(err)\<close> was called, or a match has failed, it skips the
  plain handlers and calls the matching error handlers; it stops when a handler has
  ended the response. Leaving the stack with \<open>Continue\<close> or \<open>Raise e\<close> hands the
  request to Express's built-in final handler, which is not modelled further.
\<close>

fun handle :: "layer list \<Rightarrow> string \<Rightarrow> request \<Rightarrow> exchange \<times> signal \<Rightarrow> exchange \<times> signal" where
  "handle [] path req (x, sg) = (x, sg)"
| "handle (l # ls) path req (x, sg) =
     (case sg of
        Sent \<Rightarrow> (x, Sent)
      | Continue \<Rightarrow>
          (case layer_match l path req of
             No_match \<Rightarrow> handle ls path req (x, Continue)
           | Match_failed e \<Rightarrow> handle ls path req (x, Raise e)
           | Match \<Rightarrow>
               (case layer_callback l of
                  Handle h \<Rightarrow> handle ls path req (invoke (layer_name l) (h req) x)
                | Handle_error h \<Rightarrow> handle ls path req (x, Continue)))
      | Raise e \<Rightarrow>
          (case layer_match l path req of
             Match \<Rightarrow>
               (case layer_callback l of
                  Handle h \<Rightarrow> handle ls path req (x, Raise e)
                | Handle_error h \<Rightarrow> handle ls path req (invoke (layer_name l) (h e req) x))
           | _ \<Rightarrow> handle ls path req (x, Raise e)))"

definition fresh :: exchange where
  "fresh = \<lparr>ran = [], console = [],
            reply = \<lparr>statusCode = 200, res_headers = Map.empty, res_payload = None\<rparr>\<rparr>"

subsection \<open>The cors package\<close>

text \<open>
  The options as the file gives them; \<open>cors_origin\<close> is the verdict of the origin
  callback (\<^verbatim>\<open>callback(null, verdict)\<close>). With a verdict of \<^verbatim>\<open>true\<close> the package
  reflects the request's \<^verbatim>\<open>Origin\<close>; a header whose value is undefined or empty is
  not set. Every OPTIONS request is taken for a preflight and, since
  \<^verbatim>\<open>preflightContinue\<close> is off, answered by the package itself with
  \<^verbatim>\<open>optionsSuccessStatus\<close>; any other request is passed on.
\<close>

record cors_options =
  cors_origin :: "string option \<Rightarrow> bool"
  credentials :: bool
  optionsSuccessStatus :: nat
  methods :: "string list"
  allowedHeaders :: "string list"

definition configureOrigin :: "request \<Rightarrow> response \<Rightarrow> response" where
  "configureOrigin req res =
     (case req_origin req of
        None \<Rightarrow> res
      | Some v \<Rightarrow> if v = [] then res else setHeader ''Access-Control-Allow-Origin'' v res)"

definition configureCredentials :: "cors_options \<Rightarrow> response \<Rightarrow> response" where
  "configureCredentials opts res =
     (if credentials opts then setHeader ''Access-Control-Allow-Credentials'' ''true'' res
      else res)"

definition configureMethods :: "cors_options \<Rightarrow> response \<Rightarrow> response" where
  "configureMethods opts res =
     setHeader ''Access-Control-Allow-Methods'' (join '','' (methods opts)) res"

definition configureAllowedHeaders :: "cors_options \<Rightarrow> response \<Rightarrow> response" where
  "configureAllowedHeaders opts res =
     setHeader ''Access-Control-Allow-Headers'' (join '','' (allowedHeaders opts)) res"

definition cors :: "cors_options \<Rightarrow> handler" where
  "cors opts req res =
     (if \<not> cors_origin opts (req_origin req) then ([], res, Continue)
      else if toUpperCase (req_method req) = ''OPTIONS''
      then ([], (configureAllowedHeaders opts (configureMethods opts
                   (configureCredentials opts (configureOrigin req res))))
                \<lparr>statusCode := optionsSuccessStatus opts, res_payload := Some No_payload\<rparr>,
            Sent)
      else ([], configureCredentials opts (configureOrigin req res), Continue))"

subsection \<open>The body parsers\<close>

text \<open>
  \<^verbatim>\<open>express.json\<close> and \<^verbatim>\<open>express.urlencoded\<close> (the body-parser package): a parser
  passes a request on untouched when it has no body or when its content type is not the
  parser's; otherwise it reads the body, fails with 413 (\<^verbatim>\<open>entity.too.large\<close>) when the
  body is longer than the limit and with 400 when the body does not decode, and passes
  the error to \<^verbatim>\<open>next\<close>. Whether a body decodes (as JSON, as a query string) is a
  parameter.
\<close>

definition parse_error :: "media \<Rightarrow> nat \<Rightarrow> (string \<Rightarrow> bool) \<Rightarrow> request \<Rightarrow> error option" where
  "parse_error ty limit decodes req =
     (case req_body req of
        None \<Rightarrow> None
      | Some b \<Rightarrow>
          if req_content_type req \<noteq> ty then None
          else if limit < length b then Some Entity_too_large
          else if \<not> decodes b then Some Entity_parse_failed
          else None)"

definition body_parser :: "media \<Rightarrow> nat \<Rightarrow> (string \<Rightarrow> bool) \<Rightarrow> handler" where
  "body_parser ty limit decodes req res =
     (case parse_error ty limit decodes req of
        None \<Rightarrow> ([], res, Continue)
      | Some e \<Rightarrow> ([], res, Raise e))"

text \<open>The \<^verbatim>\<open>bytes\<close> package reads \<^verbatim>\<open>'10mb'\<close> as ten times 1024 * 1024 bytes.\<close>

definition mb :: "nat \<Rightarrow> nat" where
  "mb n = n * 1024 * 1024"

subsection \<open>helmet and morgan\<close>

text \<open>
  helmet sets response headers and passes the request on; which headers it derives from
  its options depends on its version and is a parameter. An option that the call does
  not give is \<open>None\<close> (helmet then applies its default). morgan writes its access-log
  line when the response has finished and passes the request on.
\<close>

record helmet_options =
  contentSecurityPolicy :: "(string \<times> string list) list option"
  crossOriginEmbedderPolicy :: bool

definition helmet :: "(helmet_options \<Rightarrow> (string \<times> string) list) \<Rightarrow> helmet_options \<Rightarrow> handler" where
  "helmet headers_of opts req res =
     ([], fold (\<lambda>(k, v). setHeader k v) (headers_of opts) res, Continue)"

definition morgan :: "string \<Rightarrow> handler" where
  "morgan format req res = ([], res, Continue)"

subsection \<open>Node: listen\<close>

text \<open>
  \<^verbatim>\<open>process.env.PORT || 5000\<close> is a string or the number 5000, and \<^verbatim>\<open>app.listen\<close>
  hands it to Node as it is. Node converts a string with \<^verbatim>\<open>Number\<close>, the standard's
  StringToNumber: white space is trimmed, the empty string is 0, and the rest is a
  decimal literal (an optional sign, then \<^verbatim>\<open>Infinity\<close> or digits with an optional
  fraction and exponent) or an unsigned literal in base 16, 8 or 2. \<open>Decimal neg m e\<close>
  stands for the real number \<open>m * 10 ^ e\<close>, negated when \<open>neg\<close>, before it is rounded to a
  double.
\<close>

datatype number = Not_a_number | Infinite bool | Decimal bool nat int

definition radix_digit :: "char \<Rightarrow> nat option" where
  "radix_digit c = map_of (zip ''0123456789abcdefABCDEF'' ([0 ..< 16] @ [10 ..< 16])) c"

fun radix_value :: "nat \<Rightarrow> nat \<Rightarrow> string \<Rightarrow> nat option" where
  "radix_value b a [] = Some a"
| "radix_value b a (c # cs) =
     (case radix_digit c of
        None \<Rightarrow> None
      | Some v \<Rightarrow> if v < b then radix_value b (b * a + v) cs else None)"

definition radix_literal :: "nat \<Rightarrow> string \<Rightarrow> number" where
  "radix_literal b ds =
     (if ds = [] then Not_a_number
      else (case radix_value b 0 ds of None \<Rightarrow> Not_a_number | Some n \<Rightarrow> Decimal False n 0))"

definition exponent_part :: "string \<Rightarrow> int option" where
  "exponent_part s =
     (case s of
        [] \<Rightarrow> Some 0
      | c # cs \<Rightarrow>
          if c \<noteq> CHR ''e'' \<and> c \<noteq> CHR ''E'' then None
          else if take 1 cs = ''-'' then map_option (\<lambda>n. - int n) (parse_digits (drop 1 cs))
          else if take 1 cs = ''+'' then map_option int (parse_digits (drop 1 cs))
          else map_option int (parse_digits cs))"

definition StrUnsignedDecimalLiteral :: "bool \<Rightarrow> string \<Rightarrow> number" where
  "StrUnsignedDecimalLiteral neg s =
     (let whole = takeWhile is_digit s;
          r = dropWhile is_digit s;
          fraction = (if take 1 r = ''.'' then takeWhile is_digit (drop 1 r) else []);
          e = (if take 1 r = ''.'' then dropWhile is_digit (drop 1 r) else r)
      in if s = ''Infinity'' then Infinite neg
         else if whole = [] \<and> fraction = [] then Not_a_number
         else (case (parse_digits_acc 0 (whole @ fraction), exponent_part e) of
                 (Some m, Some x) \<Rightarrow> Decimal neg m (x - int (length fraction))
               | _ \<Rightarrow> Not_a_number))"

definition StringToNumber :: "string \<Rightarrow> number" where
  "StringToNumber str =
     (let s = trim_by white_space str
      in if s = [] then Decimal False 0 0
         else if take 2 s = ''0x'' \<or> take 2 s = ''0X'' then radix_literal 16 (drop 2 s)
         else if take 2 s = ''0o'' \<or> take 2 s = ''0O'' then radix_literal 8 (drop 2 s)
         else if take 2 s = ''0b'' \<or> take 2 s = ''0B'' then radix_literal 2 (drop 2 s)
         else if take 1 s = ''-'' then StrUnsignedDecimalLiteral True (drop 1 s)
         else if take 1 s = ''+'' then StrUnsignedDecimalLiteral False (drop 1 s)
         else StrUnsignedDecimalLiteral False s)"

text \<open>
  Rounding to a double. \<open>rounds_to num den n\<close>: the double nearest to \<open>num / den\<close> is
  the integer \<open>n\<close> (below \<open>2 ^ 53\<close>). The doubles next to \<open>n\<close>, for \<open>2 ^ k \<le> n < 2 ^ (k + 1)\<close>,
  are \<open>2 ^ (k - 52)\<close> away (\<open>2 ^ (k - 53)\<close> below a power of two, and \<open>2 ^ - 1074\<close> from
  zero), and a number half way is rounded to \<open>n\<close>, whose last bit is even.
  \<open>double_nat m e\<close> is the integer up to 65535 that \<open>m * 10 ^ e\<close> is rounded to, if it is
  rounded to one.
\<close>

fun binade :: "nat \<Rightarrow> nat" where
  "binade n = (if n < 2 then 0 else Suc (binade (n div 2)))"

declare binade.simps [simp del]

definition rounds_to :: "nat \<Rightarrow> nat \<Rightarrow> nat \<Rightarrow> bool" where
  "rounds_to num den n =
     (if n = 0 then num * 2 ^ 1075 \<le> den
      else if n * den \<le> num then (num - n * den) * 2 ^ (53 - binade n) \<le> den
      else (n * den - num) * 2 ^ ((if n = 2 ^ binade n then 54 else 53) - binade n) \<le> den)"

definition double_nat :: "nat \<Rightarrow> int \<Rightarrow> nat option" where
  "double_nat m e =
     (let num = (if 0 \<le> e then m * 10 ^ nat e else m);
          den = (if 0 \<le> e then 1 else 10 ^ nat (- e));
          n = (2 * num + den) div (2 * den)
      in if n \<le> 65535 \<and> rounds_to num den n then Some n else None)"

text \<open>
  \<^verbatim>\<open>server.listen(value)\<close>. A string whose number is not at least 0 (\<^verbatim>\<open>NaN\<close> or
  negative) is taken for the name of a pipe. Anything else is a port and is validated:
  it must be an integer from 0 to 65535 and not blank, or \<^verbatim>\<open>listen\<close> throws. Port 0
  (also \<^verbatim>\<open>-0\<close>) makes the operating system choose a free port.
\<close>

datatype js_value = Num int | Str string

datatype listening = Port nat | Any_free_port | Bad_port | Pipe string

definition listen :: "js_value \<Rightarrow> listening" where
  "listen v =
     (case v of
        Num n \<Rightarrow>
          if n = 0 then Any_free_port
          else if 0 < n \<and> n \<le> 65535 then Port (nat n) else Bad_port
      | Str s \<Rightarrow>
          (case StringToNumber s of
             Not_a_number \<Rightarrow> Pipe s
           | Infinite neg \<Rightarrow> if neg then Pipe s else Bad_port
           | Decimal neg m e \<Rightarrow>
               (case double_nat m e of
                  None \<Rightarrow> if neg then Pipe s else Bad_port
                | Some n \<Rightarrow>
                    if neg \<and> n \<noteq> 0 then Pipe s
                    else if trim_by white_space s = [] then Bad_port
                    else if n = 0 then Any_free_port
                    else Port n)))"

subsection \<open>server.js\<close>

text \<open>
  The modules of the repository that the file requires and the undetermined parts of
  the packages.
\<close>

record deps =
  authRoutes :: handler
  productRoutes :: handler
  invoiceRoutes :: handler
  shopRoutes :: handler
  errorHandler :: error_handler
  helmet_headers :: "helmet_options \<Rightarrow> (string \<times> string) list"
  json_decodes :: "string \<Rightarrow> bool"
  urlencoded_decodes :: "string \<Rightarrow> bool"
  uri_decodes :: "string \<Rightarrow> bool"
  entity_tag :: "string \<Rightarrow> string"
  http_date_le :: "string \<Rightarrow> string \<Rightarrow> bool"

text \<open>\<^verbatim>\<open>const PORT = process.env.PORT || 5000;\<close> (the empty string is falsy).\<close>

definition PORT :: "process_env \<Rightarrow> js_value" where
  "PORT env =
     (case env_PORT env of
        None \<Rightarrow> Num 5000
      | Some s \<Rightarrow> if s = [] then Num 5000 else Str s)"

definition corsOptions :: cors_options where
  "corsOptions =
     \<lparr>cors_origin = (\<lambda>origin. True),
      credentials = True,
      optionsSuccessStatus = 200,
      methods = [''GET'', ''POST'', ''PUT'', ''DELETE'', ''OPTIONS''],
      allowedHeaders = [''Content-Type'', ''Authorization'']\<rparr>"

text \<open>The CSP source expressions \<^verbatim>\<open>'self'\<close> and \<^verbatim>\<open>'unsafe-inline'\<close>, quotes included.\<close>

definition self :: string where
  "self = [CHR 0x27] @ ''self'' @ [CHR 0x27]"

definition unsafe_inline :: string where
  "unsafe_inline = [CHR 0x27] @ ''unsafe-inline'' @ [CHR 0x27]"

definition production :: "process_env \<Rightarrow> bool" where
  "production env = (env_NODE_ENV env = Some ''production'')"

definition helmetOptions :: "process_env \<Rightarrow> helmet_options" where
  "helmetOptions env =
     (if production env
      then \<lparr>contentSecurityPolicy =
              Some [(''defaultSrc'', [self]),
                    (''styleSrc'', [self, unsafe_inline]),
                    (''imgSrc'', [self, ''data:'', ''https:'']),
                    (''scriptSrc'', [self]),
                    (''connectSrc'', [self])],
            crossOriginEmbedderPolicy = False\<rparr>
      else \<lparr>contentSecurityPolicy = None, crossOriginEmbedderPolicy = False\<rparr>)"

text \<open>
  The diagnostic logger; a template literal prints a missing header as \<^verbatim>\<open>undefined\<close>.
\<close>

definition diagnostic_line :: "request \<Rightarrow> string" where
  "diagnostic_line req =
     ''[REQ] '' @ req_method req @ '' '' @ req_originalUrl req @ '' - Origin: ''
     @ (case req_origin req of None \<Rightarrow> ''undefined'' | Some v \<Rightarrow> v)"

definition diagnostic_logger :: handler where
  "diagnostic_logger req res = ([diagnostic_line req], res, Continue)"

text \<open>
  The health handlers. \<open>now\<close> is the system clock when the handler runs;
  \<^verbatim>\<open>toISOString\<close> throws a RangeError on an invalid date.
\<close>

definition health_body :: "string \<Rightarrow> int \<Rightarrow> json_object" where
  "health_body message t =
     [(''status'', ''OK''), (''message'', message), (''timestamp'', toISOString t)]"

definition health_handler :: "deps \<Rightarrow> string \<Rightarrow> int \<Rightarrow> handler" where
  "health_handler d message now req res =
     (case TimeClip now of
        None \<Rightarrow> ([], status 200 res, Raise Invalid_time_value)
      | Some t \<Rightarrow>
          json (entity_tag d) (http_date_le d) (health_body message t) req (status 200 res))"

definition ping_handler :: "deps \<Rightarrow> handler" where
  "ping_handler d req res = send (entity_tag d) (http_date_le d) ''pong'' req res"

definition not_found_handler :: "deps \<Rightarrow> handler" where
  "not_found_handler d req res =
     json (entity_tag d) (http_date_le d)
       [(''error'', ''Route not found''),
        (''message'', ''The endpoint '' @ req_originalUrl req @ '' does not exist'')]
       req (status 404 res)"

text \<open>
  The application is the stack in the order of the file's registrations: first the
  middleware (the file's section \<^verbatim>\<open>// Middleware\<close>), then the health checks, the
  mounted routers, the 404 handler and the error handler.
\<close>

definition middleware :: "process_env \<Rightarrow> deps \<Rightarrow> layer list" where
  "middleware env d =
     [use Helmet (Handle (helmet (helmet_headers d) (helmetOptions env))),
      use Morgan (Handle (morgan ''combined'')),
      use Cors (Handle (cors corsOptions))]
     @ (if env_NODE_ENV env \<noteq> Some ''production''
        then [use DiagLog (Handle diagnostic_logger)] else [])
     @ [use JsonParser (Handle (body_parser Json_media (mb 10) (json_decodes d))),
        use UrlencodedParser
          (Handle (body_parser Urlencoded_media (mb 10) (urlencoded_decodes d)))]"

definition routes :: "deps \<Rightarrow> int \<Rightarrow> layer list" where
  "routes d now =
     [get ''/health'' Health
        (Handle (health_handler d ''Billing Invoicer API is running'' now)),
      get ''/api/health'' ApiHealth
        (Handle (health_handler d ''Billing Invoicer API (api path) is running'' now)),
      get ''/ping'' Ping (Handle (ping_handler d)),
      use_at ''/api/auth'' AuthRoutes (Handle (authRoutes d)),
      use_at ''/api/products'' ProductRoutes (Handle (productRoutes d)),
      use_at ''/api/invoices'' InvoiceRoutes (Handle (invoiceRoutes d)),
      use_at ''/api/shop'' ShopRoutes (Handle (shopRoutes d)),
      use_star (uri_decodes d) NotFound (Handle (not_found_handler d)),
      use ErrorHandler (Handle_error (errorHandler d))]"

definition app :: "process_env \<Rightarrow> deps \<Rightarrow> int \<Rightarrow> layer list" where
  "app env d now = middleware env d @ routes d now"

text \<open>
  Serving one request. Express reads the path of the request before it tries a layer;
  when there is none it leaves the stack at once, and its final handler answers (with
  a 404 of its own) a response that no layer has touched.
\<close>

definition path_of :: "deps \<Rightarrow> request \<Rightarrow> string option" where
  "path_of d req = pathname (uri_decodes d) (req_originalUrl req)"

definition serve :: "process_env \<Rightarrow> deps \<Rightarrow> int \<Rightarrow> request \<Rightarrow> exchange \<times> signal" where
  "serve env d now req =
     (case path_of d req of
        None \<Rightarrow> (fresh, Continue)
      | Some path \<Rightarrow> handle (app env d now) path req (fresh, Continue))"

text \<open>\<^verbatim>\<open>app.listen(PORT)\<close>.\<close>

definition app_listen :: "process_env \<Rightarrow> listening" where
  "app_listen env = listen (PORT env)"

subsection \<open>Notions the properties are stated with\<close>




text \<open>A request without a validator: no \<^verbatim>\<open>If-None-Match\<close>, no \<^verbatim>\<open>If-Modified-Since\<close>.\<close>

definition unconditional :: "request \<Rightarrow> bool" where
  "unconditional req =
     (\<not> given (req_if_none_match req) \<and> \<not> given (req_if_modified_since req))"



text \<open>A path that none of the three routes and none of the four mount paths matches.\<close>

definition unrouted :: "string \<Rightarrow> bool" where
  "unrouted path =
     (\<not> route_match ''/health'' path \<and> \<not> route_match ''/api/health'' path
      \<and> \<not> route_match ''/ping'' path
      \<and> \<not> mount_match ''/api/auth'' path
      \<and> \<not> mount_match ''/api/products'' path
      \<and> \<not> mount_match ''/api/invoices'' path
      \<and> \<not> mount_match ''/api/shop'' path)"

text \<open>
  A handler that leaves the two CORS headers of the response as it found them, and a
  layer whose callback does.
\<close>

definition cors_headers :: "response \<Rightarrow> string option \<times> string option" where
  "cors_headers r =
     (res_headers r ''Access-Control-Allow-Origin'',
      res_headers r ''Access-Control-Allow-Credentials'')"




subsection \<open>Sample environments, modules and requests\<close>

definition development :: process_env where
  "development = \<lparr>env_PORT = None, env_NODE_ENV = None\<rparr>"

definition deployed :: process_env where
  "deployed = \<lparr>env_PORT = Some ''8080'', env_NODE_ENV = Some ''production''\<rparr>"

definition ephemeral :: process_env where
  "ephemeral = \<lparr>env_PORT = Some ''0'', env_NODE_ENV = None\<rparr>"

definition created :: handler where
  "created req r = ([], r\<lparr>statusCode := 201, res_payload := Some (Text_payload ''created'')\<rparr>, Sent)"

definition failed :: error_handler where
  "failed e req r =
     ([], r\<lparr>statusCode := 500, res_payload := Some (Json_payload [(''error'', ''failed'')])\<rparr>,
      Sent)"

definition sample_modules :: deps where
  "sample_modules =
     \<lparr>authRoutes = (\<lambda>req r. ([], r, Continue)),
      productRoutes = created,
      invoiceRoutes = (\<lambda>req r. ([], r, Raise (Module_error ''no such invoice''))),
      shopRoutes = (\<lambda>req r. ([], r, Continue)),
      errorHandler = failed,
      helmet_headers = (\<lambda>opts. [(''X-Content-Type-Options'', ''nosniff'')]),
      json_decodes = (\<lambda>b. True),
      urlencoded_decodes = (\<lambda>b. True),
      uri_decodes = (\<lambda>p. CHR ''%'' \<notin> set p),
      entity_tag = (\<lambda>b. ''W/'' @ b),
      http_date_le = (\<lambda>a b. a = b)\<rparr>"

definition browser_request :: "string \<Rightarrow> string \<Rightarrow> request" where
  "browser_request m url =
     \<lparr>req_method = m, req_originalUrl = url, req_origin = Some ''https://shop.example'',
      req_if_none_match = None, req_if_modified_since = None, req_cache_control = None,
      req_content_type = Other_media, req_body = None\<rparr>"

definition large_body :: string where
  "large_body = replicate (mb 10 + 1) (CHR ''x'')"

definition upload :: request where
  "upload =
     \<lparr>req_method = ''POST'', req_originalUrl = ''/api/products'',
      req_origin = Some ''https://shop.example'',
      req_if_none_match = None, req_if_modified_since = None, req_cache_control = None,
      req_content_type = Other_media, req_body = Some large_body\<rparr>"





definition noon :: int where
  "noon = 1730544000123"

section \<open>Dates: the timestamp reads back\<close>

subsection \<open>Division by a positive constant\<close>









subsection \<open>Years\<close>








subsection \<open>Months and days\<close>



subsection \<open>The time of day\<close>




subsection \<open>Digits\<close>

lemma length_pad_digits [simp]: "length (pad_digits k n) = k"
  by (induction k arbitrary: n) simp_all








subsection \<open>The round trip\<close>


section \<open>The router\<close>

text \<open>
  A response that is sent ends the walk, so the stack can be walked in pieces: first
  the middleware, then the routes.
\<close>

lemma handle_Sent [simp]: "handle ls path req (x, Sent) = (x, Sent)"
  by (cases ls) simp_all

lemma handle_Nil [simp]: "handle [] path req s = s"
  by (cases s) simp


text \<open>One step of the walk for each way the file registers a layer.\<close>

lemma handle_use [simp]:
  "handle (use n (Handle h) # ls) path req (x, Continue) = handle ls path req (invoke n (h req) x)"
  "handle (use n (Handle h) # ls) path req (x, Raise e) = handle ls path req (x, Raise e)"
  "handle (use n (Handle_error g) # ls) path req (x, Continue) = handle ls path req (x, Continue)"
  "handle (use n (Handle_error g) # ls) path req (x, Raise e) = handle ls path req (invoke n (g e req) x)"
  by (simp_all add: use_def)

lemma handle_get [simp]:
  "handle (get p n (Handle h) # ls) path req (x, Continue) =
     (if route_match p path \<and> handles_get (req_method req)
      then handle ls path req (invoke n (h req) x) else handle ls path req (x, Continue))"
  "handle (get p n (Handle h) # ls) path req (x, Raise e) = handle ls path req (x, Raise e)"
  by (simp_all add: get_def)

lemma handle_use_at [simp]:
  "handle (use_at p n (Handle h) # ls) path req (x, Continue) =
     (if mount_match p path
      then handle ls path req (invoke n (h req) x) else handle ls path req (x, Continue))"
  "handle (use_at p n (Handle h) # ls) path req (x, Raise e) = handle ls path req (x, Raise e)"
  by (simp_all add: use_at_def)

lemma handle_use_star [simp]:
  "handle (use_star dec n (Handle h) # ls) path req (x, Continue) =
     (if dec path
      then handle ls path req (invoke n (h req) x) else handle ls path req (x, Raise URI_malformed))"
  "handle (use_star dec n (Handle h) # ls) path req (x, Raise e) = handle ls path req (x, Raise e)"
  by (simp_all add: use_star_def)

declare handle.simps(2) [simp del]

lemma layer_simps [simp]:
  "layer_name (use n cb) = n" "layer_callback (use n cb) = cb"
  "layer_name (use_at p n cb) = n" "layer_callback (use_at p n cb) = cb"
  "layer_name (use_star dec n cb) = n" "layer_callback (use_star dec n cb) = cb"
  "layer_name (get p n cb) = n" "layer_callback (get p n cb) = cb"
  by (simp_all add: use_def use_at_def use_star_def get_def)


lemma fresh_simps [simp]: "ran fresh = []" "console fresh = []"
  by (simp_all add: fresh_def)




section \<open>The middleware and the handlers of the file\<close>

lemma setHeader_simps [simp]:
  "statusCode (setHeader k v r) = statusCode r"
  "res_payload (setHeader k v r) = res_payload r"
  "res_headers (setHeader k v r) = (res_headers r)(k \<mapsto> v)"
  by (simp_all add: setHeader_def)

lemma fold_setHeader [simp]:
  "statusCode (fold (\<lambda>(k, v). setHeader k v) hs r) = statusCode r"
  "res_payload (fold (\<lambda>(k, v). setHeader k v) hs r) = res_payload r"
  by (induction hs arbitrary: r) (simp_all split: prod.split)

lemma configureOrigin_simps [simp]:
  "statusCode (configureOrigin req r) = statusCode r"
  "res_payload (configureOrigin req r) = res_payload r"
  by (simp_all add: configureOrigin_def split: option.split)

lemma configureCredentials_simps [simp]:
  "statusCode (configureCredentials opts r) = statusCode r"
  "res_payload (configureCredentials opts r) = res_payload r"
  by (simp_all add: configureCredentials_def)

lemma removeHeader_simps [simp]:
  "statusCode (removeHeader k r) = statusCode r"
  "res_payload (removeHeader k r) = res_payload r"
  "res_headers (removeHeader k r) = (res_headers r)(k := None)"
  by (simp_all add: removeHeader_def)

lemma status_simps [simp]:
  "statusCode (status c r) = c"
  "res_payload (status c r) = res_payload r"
  "res_headers (status c r) = res_headers r"
  by (simp_all add: status_def)

lemma default_type_simps [simp]:
  "statusCode (default_type ty r) = statusCode r"
  "res_payload (default_type ty r) = res_payload r"
  by (simp_all add: default_type_def)

lemma cors_headers_simps [simp]:
  "cors_headers (status c r) = cors_headers r"
  "cors_headers (default_type ''text/html; charset=utf-8'' r) = cors_headers r"
  "cors_headers (default_type ''application/json; charset=utf-8'' r) = cors_headers r"
  "cors_headers (r\<lparr>res_payload := p\<rparr>) = cors_headers r"
  "cors_headers (r\<lparr>statusCode := c\<rparr>) = cors_headers r"
  by (simp_all add: cors_headers_def default_type_def)



lemma send_payload_simps [simp]:
  "fst (send_payload etag date_le ty body req r) = []"
  "snd (snd (send_payload etag date_le ty body req r)) = Sent"
  by (simp_all add: send_payload_def Let_def)






lemma length_toLowerCase [simp]: "length (toLowerCase s) = length s"
  by (simp add: toLowerCase_def)

lemma length_toUpperCase [simp]: "length (toUpperCase s) = length s"
  by (simp add: toUpperCase_def)









lemma serve_no_path: "path_of d req = None \<Longrightarrow> serve env d now req = (fresh, Continue)"
  by (simp add: serve_def)





lemma route_match_health:
  "route_match ''/health'' p \<Longrightarrow> \<not> route_match ''/api/health'' p \<and> \<not> route_match ''/ping'' p"
  by (auto simp: route_match_def)












section \<open>The port\<close>

text \<open>
  A string of decimal digits is read by \<^verbatim>\<open>Number\<close> as the number it spells, which is
  a double as it stands when it is a port number.
\<close>

lemma digit_val_is_digit: "digit_val c = Some v \<Longrightarrow> is_digit c"
  unfolding digit_val_def is_digit_def
  by (drule map_of_SomeD) (auto dest: set_zip_leftD)

lemma parse_digits_acc_digits: "parse_digits_acc a s = Some n \<Longrightarrow> list_all is_digit s"
proof (induction s arbitrary: a)
  case Nil
  then show ?case by simp
next
  case (Cons c cs)
  then show ?case
    by (auto split: option.splits dest: digit_val_is_digit)
qed

lemma is_digit_not_special:
  assumes "is_digit c"
  shows "\<not> white_space c" "c \<noteq> CHR ''-''" "c \<noteq> CHR ''+''" "c \<noteq> CHR ''I''"
    "c \<noteq> CHR ''x''" "c \<noteq> CHR ''X''" "c \<noteq> CHR ''o''" "c \<noteq> CHR ''O''"
    "c \<noteq> CHR ''b''" "c \<noteq> CHR ''B''"
  using assms by (auto simp: is_digit_def white_space_def)

lemma trim_digits:
  assumes "s \<noteq> []" and "list_all is_digit s"
  shows "trim_by white_space s = s"
proof -
  have h: "\<not> white_space (hd s)" "\<not> white_space (last s)"
    using assms is_digit_not_special(1) by (auto simp: list_all_iff)
  have 1: "dropWhile white_space s = s"
    using assms(1) h(1) by (cases s) simp_all
  have 2: "dropWhile white_space (rev s) = rev s"
    using assms(1) h(2) by (cases "rev s") (simp_all add: last_rev[symmetric] hd_rev)
  show ?thesis
    by (simp add: trim_by_def 1 2)
qed

lemma StringToNumber_digits:
  assumes "parse_digits s = Some n"
  shows "StringToNumber s = Decimal False n 0"
proof -
  have ne: "s \<noteq> []" and acc: "parse_digits_acc 0 s = Some n"
    using assms by (auto simp: parse_digits_def split: if_splits)
  have ds: "list_all is_digit s"
    using acc by (rule parse_digits_acc_digits)
  obtain c cs where s: "s = c # cs"
    using ne by (cases s) auto
  have c: "is_digit c" and cs: "list_all is_digit cs"
    using ds by (simp_all add: s)
  have two: "take 2 s \<noteq> ''0x''" "take 2 s \<noteq> ''0X''" "take 2 s \<noteq> ''0o''"
    "take 2 s \<noteq> ''0O''" "take 2 s \<noteq> ''0b''" "take 2 s \<noteq> ''0B''"
    using cs is_digit_not_special(5-10) by (cases cs; auto simp: s)+
  have one: "take 1 s \<noteq> ''-''" "take 1 s \<noteq> ''+''" "s \<noteq> ''Infinity''"
    using c is_digit_not_special(2-4) by (auto simp: s)
  have tw: "takeWhile is_digit s = s" "dropWhile is_digit s = []"
    using ds by (simp_all add: list_all_iff)
  have u: "StrUnsignedDecimalLiteral False s = Decimal False n 0"
    using ne one(3) acc by (simp add: StrUnsignedDecimalLiteral_def tw exponent_part_def)
  show ?thesis
    using ne two one(1,2) u by (simp add: StringToNumber_def trim_digits[OF ne ds])
qed

lemma double_nat_integer: "double_nat n 0 = (if n \<le> 65535 then Some n else None)"
  by (simp add: double_nat_def rounds_to_def)

lemma listen_digits:
  assumes "parse_digits s = Some n"
  shows "listen (Str s) =
           (if n = 0 then Any_free_port else if n \<le> 65535 then Port n else Bad_port)"
proof -
  have ne: "s \<noteq> []" and acc: "parse_digits_acc 0 s = Some n"
    using assms by (auto simp: parse_digits_def split: if_splits)
  have "trim_by white_space s = s"
    using ne parse_digits_acc_digits[OF acc] by (rule trim_digits)
  then show ?thesis
    using ne by (simp add: listen_def StringToNumber_digits[OF assms] double_nat_integer)
qed

section \<open>The sample inputs\<close>


lemma browser_request_simps [simp]:
  "req_method (browser_request m url) = m"
  "req_originalUrl (browser_request m url) = url"
  "req_origin (browser_request m url) = Some ''https://shop.example''"
  "req_content_type (browser_request m url) = Other_media"
  "req_body (browser_request m url) = None"
  "path_of d (browser_request m url) = pathname (uri_decodes d) url"
  "unconditional (browser_request m url)"
  by (simp_all add: browser_request_def path_of_def unconditional_def given_def)


lemma sample_modules_simps [simp]:
  "authRoutes sample_modules = (\<lambda>req r. ([], r, Continue))"
  "productRoutes sample_modules = created"
  "invoiceRoutes sample_modules = (\<lambda>req r. ([], r, Raise (Module_error ''no such invoice'')))"
  "shopRoutes sample_modules = (\<lambda>req r. ([], r, Continue))"
  "errorHandler sample_modules = failed"
  "helmet_headers sample_modules = (\<lambda>opts. [(''X-Content-Type-Options'', ''nosniff'')])"
  "json_decodes sample_modules = (\<lambda>b. True)"
  "urlencoded_decodes sample_modules = (\<lambda>b. True)"
  "uri_decodes sample_modules = (\<lambda>p. CHR ''%'' \<notin> set p)"
  by (simp_all add: sample_modules_def)

lemma sample_env_simps [simp]:
  "production deployed" "\<not> production development"
  "env_NODE_ENV development = None" "env_NODE_ENV deployed = Some ''production''"
  "env_PORT development = None" "env_PORT deployed = Some ''8080''"
  by (simp_all add: production_def deployed_def development_def)



lemma upload_simps [simp]:
  "req_method upload = ''POST''" "req_originalUrl upload = ''/api/products''"
  "req_content_type upload = Other_media" "req_body upload = Some large_body"
  "path_of d upload = pathname (uri_decodes d) ''/api/products''"
  by (simp_all add: upload_def path_of_def)




lemma sample_paths_parsed [simp]:
  "pathname dec ''/health#status'' = Some ''/health''"
  "pathname dec ''http://localhost:5000/ping'' = Some ''/ping''"
  "pathname dec ''git://host'' = None"
  by (simp_all add: pathname_def fastparse_defers_def url_parse_def trim_by_def url_white_def
      simplePathPattern_def protocolPattern_def hostPattern_def slashedProtocol_def
      after_host_def host_ending_def non_host_def hostname_of_def path_part_def autoEscape_def
      is_letter_def is_digit_def toLowerCase_def Let_def)

lemma sample_matches [simp]:
  "route_match ''/health'' ''/health''" "route_match ''/api/health'' ''/api/health''"
  "route_match ''/ping'' ''/ping''"
  "unrouted ''/no-such-route''"
  "mount_match ''/api/products'' ''/api/products''"
  "mount_match ''/api/invoices'' ''/api/invoices/7''"
  "\<not> mount_match ''/api/auth'' ''/api/products''"
  "\<not> mount_match ''/api/auth'' ''/api/invoices/7''"
  "\<not> mount_match ''/api/products'' ''/api/invoices/7''"
  "\<not> mount_match ''/api/auth'' ''/health''"
  "\<not> mount_match ''/api/products'' ''/health''"
  "\<not> mount_match ''/api/invoices'' ''/health''"
  "\<not> mount_match ''/api/shop'' ''/health''"
  by (simp_all add: route_match_def mount_match_def unrouted_def toLowerCase_def)







text \<open>How Node reads some spellings of a port.\<close>

lemma sample_ports:
  "parse_digits ''8080'' = Some 8080" "parse_digits ''0'' = Some 0"
  "listen (Str '' 8080'') = Port 8080"
  "listen (Str ''0x1F90'') = Port 8080"
  "listen (Str ''http'') = Pipe ''http''"
  by (simp_all add: parse_digits_def digit_val_def upt_rec listen_def StringToNumber_def
      trim_by_def white_space_def StrUnsignedDecimalLiteral_def is_digit_def exponent_part_def
      radix_literal_def radix_digit_def double_nat_def rounds_to_def Let_def)

section \<open>The properties\<close>

text \<open>
  In what follows \<open>path_of d req = Some path\<close> says that Express finds the path \<open>path\<close> in
  the request target; a request "to" a route is one whose path the route matches as
  Express matches it (\<open>route_match\<close>: the path itself, in any letter case, with or
  without a trailing slash); and \<open>serve\<close> is the whole application: the result of
  handing the request to the stack with a fresh response.
\<close>

subsection \<open>C1: the health check\<close>




subsection \<open>C2: unmatched routes\<close>




subsection \<open>C3: CORS headers on every response\<close>




subsection \<open>C4: helmet in production\<close>

text \<open>
  C4, as the code has it. In production helmet is configured with the
  content-security-policy directives \<^verbatim>\<open>defaultSrc\<close>, \<^verbatim>\<open>scriptSrc\<close> and
  \<^verbatim>\<open>connectSrc\<close> of \<^verbatim>\<open>'self'\<close> alone, \<^verbatim>\<open>styleSrc\<close> of \<^verbatim>\<open>'self'\<close> and
  \<^verbatim>\<open>'unsafe-inline'\<close>, \<^verbatim>\<open>imgSrc\<close> of \<^verbatim>\<open>'self'\<close>, \<^verbatim>\<open>data:\<close> and \<^verbatim>\<open>https:\<close>,
  and with \<^verbatim>\<open>crossOriginEmbedderPolicy\<close> off; helmet is the first layer of the stack.
\<close>

theorem helmet_in_production:
  assumes "production env"
  shows "helmetOptions env =
           \<lparr>contentSecurityPolicy =
              Some [(''defaultSrc'', [self]),
                    (''styleSrc'', [self, unsafe_inline]),
                    (''imgSrc'', [self, ''data:'', ''https:'']),
                    (''scriptSrc'', [self]),
                    (''connectSrc'', [self])],
            crossOriginEmbedderPolicy = False\<rparr>
         \<and> hd (app env d now) =
             use Helmet (Handle (helmet (helmet_headers d) (helmetOptions env)))"
  using assms by (simp add: helmetOptions_def app_def middleware_def)

text \<open>
  The claim as stated fails for the style sources: they allow \<^verbatim>\<open>'unsafe-inline'\<close>
  besides \<^verbatim>\<open>'self'\<close>.
\<close>

theorem helmet_in_production_counterexample:
  "production deployed
   \<and> map_of (the (contentSecurityPolicy (helmetOptions deployed))) ''styleSrc''
       = Some [self, unsafe_inline]
   \<and> [self, unsafe_inline] \<noteq> [self]"
  by (simp add: helmetOptions_def)

text \<open>C4 at the sample production environment.\<close>

theorem helmet_in_production_witness:
  "production deployed
   \<and> helmetOptions deployed =
       \<lparr>contentSecurityPolicy =
          Some [(''defaultSrc'', [self]),
                (''styleSrc'', [self, unsafe_inline]),
                (''imgSrc'', [self, ''data:'', ''https:'']),
                (''scriptSrc'', [self]),
                (''connectSrc'', [self])],
        crossOriginEmbedderPolicy = False\<rparr>
   \<and> hd (app deployed sample_modules noon) =
       use Helmet (Handle (helmet (helmet_headers sample_modules) (helmetOptions deployed)))"
  using helmet_in_production[of deployed sample_modules noon] by simp

subsection \<open>C5: the health checks and the method\<close>




subsection \<open>C6: the payload limit\<close>




subsection \<open>C7: ping\<close>




subsection \<open>C8: the port\<close>

text \<open>
  C8, as the code has it. The value of \<^verbatim>\<open>PORT\<close> is handed to \<^verbatim>\<open>listen\<close> as the
  string it is; the file converts nothing. With \<^verbatim>\<open>PORT\<close> unset or empty the server
  listens on port 5000. With \<^verbatim>\<open>PORT\<close> set to decimal digits it listens on the port
  they spell when that is between 1 and 65535; it lets the operating system choose a
  port when they spell 0, and it fails to start when they spell more than 65535.
\<close>

theorem listening_port:
  "(env_PORT env = None \<or> env_PORT env = Some [] \<longrightarrow> app_listen env = Port 5000)
   \<and> (\<forall>s n. env_PORT env = Some s \<and> parse_digits s = Some n \<longrightarrow>
          app_listen env =
            (if n = 0 then Any_free_port else if n \<le> 65535 then Port n else Bad_port))"
proof (intro conjI allI impI)
  assume "env_PORT env = None \<or> env_PORT env = Some []"
  then show "app_listen env = Port 5000"
    by (auto simp: app_listen_def PORT_def listen_def)
next
  fix s n
  assume a: "env_PORT env = Some s \<and> parse_digits s = Some n"
  then have "s \<noteq> []"
    by (auto simp: parse_digits_def)
  then show "app_listen env =
      (if n = 0 then Any_free_port else if n \<le> 65535 then Port n else Bad_port)"
    using a by (simp add: app_listen_def PORT_def listen_digits)
qed

text \<open>
  The claim as stated fails for \<^verbatim>\<open>PORT=0\<close>: the port the server listens on is not
  the integer that \<^verbatim>\<open>PORT\<close> spells but one that the operating system chooses.
\<close>

theorem listening_port_counterexample:
  "env_PORT ephemeral = Some ''0'' \<and> parse_digits ''0'' = Some 0
   \<and> app_listen ephemeral = Any_free_port \<and> app_listen ephemeral \<noteq> Port 0"
  by (simp add: ephemeral_def app_listen_def PORT_def sample_ports(2) listen_digits)

text \<open>
  C8 at the sample environments: no \<^verbatim>\<open>PORT\<close>, and \<^verbatim>\<open>PORT=8080\<close>.
\<close>

theorem listening_port_witness:
  "env_PORT development = None \<and> app_listen development = Port 5000
   \<and> env_PORT deployed = Some ''8080'' \<and> parse_digits ''8080'' = Some 8080
   \<and> app_listen deployed = Port 8080"
  using listening_port[of development] listening_port[of deployed] sample_ports(1)
  by simp

subsection \<open>C9: the diagnostic logger\<close>




subsection \<open>C10: the two health bodies\<close>




end
